theory Spec2Isabelle
  imports
    Main
    "HOL-Library.AList"
    "HOL-Library.Char_ord"
    "HOL-Library.List_Lexorder"
    "HOL-Library.Multiset"
begin

section \<open>Label sets of k8s.io/apimachinery/pkg/labels (labels.go)\<close>

text \<open>
  A Go string is a sequence of bytes: \<^typ>\<open>string\<close>, that is \<^typ>\<open>char list\<close> with
  8-bit characters. Go compares strings bytewise and lexicographically, which is the
  order of \<open>Char_ord\<close> lifted to lists by \<open>List_Lexorder\<close>.

  \<^verbatim>\<open>type Set map[string]string\<close> is modelled by an association list. The list gives the
  order in which \<^verbatim>\<open>range\<close> visits the entries; Go leaves that order open, so every
  property below is proved for every list. A list stands for a Go map when its keys are
  pairwise different (\<open>distinct (map fst ls)\<close>). \<^verbatim>\<open>ls[k]\<close> is \<^const>\<open>map_of\<close>,
  \<^verbatim>\<open>m[k] = v\<close> is \<^const>\<open>AList.update\<close> and \<^verbatim>\<open>len(ls)\<close> is \<^const>\<open>length\<close>.
  The nil map and the empty map both read as \<open>[]\<close>.
\<close>

type_synonym Set = "(string \<times> string) list"

subsection \<open>The functions of package strings and sort that the file calls\<close>

text \<open>\<^verbatim>\<open>strings.Join(elems, sep)\<close>.\<close>

fun Join :: "string list \<Rightarrow> string \<Rightarrow> string" where
  "Join [] sep = []"
| "Join [x] sep = x"
| "Join (x # y # ys) sep = x @ sep @ Join (y # ys) sep"

text \<open>
  \<^verbatim>\<open>strings.Split(s, sep)\<close> for a separator of one byte, the only way the file calls it:
  the pieces between the separators, \<open>n + 1\<close> of them when \<open>s\<close> holds the separator
  \<open>n\<close> times. \<open>genSplit sep cur s\<close> scans \<open>s\<close> with \<open>cur\<close> the piece read so far.
\<close>

fun genSplit :: "char \<Rightarrow> string \<Rightarrow> string \<Rightarrow> string list" where
  "genSplit sep cur [] = [cur]"
| "genSplit sep cur (c # s) =
     (if c = sep then cur # genSplit sep [] s else genSplit sep (cur @ [c]) s)"

definition Split :: "string \<Rightarrow> char \<Rightarrow> string list" where
  "Split s sep = genSplit sep [] s"

text \<open>
  \<^verbatim>\<open>strings.TrimSpace(s)\<close> removes the leading and the trailing white space runes of
  \<open>s\<close> (\<^verbatim>\<open>unicode.IsSpace\<close>). On the bytes of a string these are the six ASCII bytes
  of \<^verbatim>\<open>asciiSpace\<close> and the UTF-8 encodings of U+0085, U+00A0, U+1680, U+2000 to
  U+200A, U+2028, U+2029, U+202F, U+205F and U+3000. A byte sequence that is no valid
  encoding decodes to \<^verbatim>\<open>utf8.RuneError\<close>, which is no white space, so trimming stops there.
\<close>

definition whiteSpace :: "string list" where
  "whiteSpace =
    [[CHR 0x09], [CHR 0x0A], [CHR 0x0B], [CHR 0x0C], [CHR 0x0D], [CHR 0x20],
     [CHR 0xC2, CHR 0x85], [CHR 0xC2, CHR 0xA0],
     [CHR 0xE1, CHR 0x9A, CHR 0x80],
     [CHR 0xE2, CHR 0x80, CHR 0x80], [CHR 0xE2, CHR 0x80, CHR 0x81],
     [CHR 0xE2, CHR 0x80, CHR 0x82], [CHR 0xE2, CHR 0x80, CHR 0x83],
     [CHR 0xE2, CHR 0x80, CHR 0x84], [CHR 0xE2, CHR 0x80, CHR 0x85],
     [CHR 0xE2, CHR 0x80, CHR 0x86], [CHR 0xE2, CHR 0x80, CHR 0x87],
     [CHR 0xE2, CHR 0x80, CHR 0x88], [CHR 0xE2, CHR 0x80, CHR 0x89],
     [CHR 0xE2, CHR 0x80, CHR 0x8A],
     [CHR 0xE2, CHR 0x80, CHR 0xA8], [CHR 0xE2, CHR 0x80, CHR 0xA9],
     [CHR 0xE2, CHR 0x80, CHR 0xAF],
     [CHR 0xE2, CHR 0x81, CHR 0x9F],
     [CHR 0xE3, CHR 0x80, CHR 0x80]]"

text \<open>The width in bytes of the rune of \<open>ws\<close> that \<open>s\<close> starts with, 0 when there is none.\<close>

fun spaceWidth :: "string list \<Rightarrow> string \<Rightarrow> nat" where
  "spaceWidth [] s = 0"
| "spaceWidth (w # ws) s = (if take (length w) s = w then length w else spaceWidth ws s)"

fun trimPrefix :: "string list \<Rightarrow> string \<Rightarrow> string" where
  "trimPrefix ws [] = []"
| "trimPrefix ws (c # s) =
     (if spaceWidth ws (c # s) = 0 then c # s
      else trimPrefix ws (drop (spaceWidth ws (c # s) - 1) s))"

definition TrimLeft :: "string \<Rightarrow> string" where
  "TrimLeft s = trimPrefix whiteSpace s"

text \<open>The same scan from the end of the string, on the reversed bytes.\<close>

definition TrimRight :: "string \<Rightarrow> string" where
  "TrimRight s = rev (trimPrefix (map rev whiteSpace) (rev s))"

definition TrimSpace :: "string \<Rightarrow> string" where
  "TrimSpace s = TrimRight (TrimLeft s)"

subsection \<open>Set and the Labels interface\<close>

text \<open>One entry as \<^verbatim>\<open>key+"="+value\<close>.\<close>

definition entry :: "string \<times> string \<Rightarrow> string" where
  "entry kv = fst kv @ ''='' @ snd kv"

text \<open>
  \<^verbatim>\<open>func (ls Set) String() string\<close>: the loop appends one rendered entry for each pair
  that \<^verbatim>\<open>range\<close> yields, \<^verbatim>\<open>sort.StringSlice(selector).Sort()\<close> sorts the rendered
  strings, and \<^verbatim>\<open>strings.Join\<close> puts a comma between them.
\<close>

definition String :: "Set \<Rightarrow> string" where
  "String ls = Join (sort (map entry ls)) '',''"

definition Has :: "Set \<Rightarrow> string \<Rightarrow> bool" where
  "Has ls label = (case map_of ls label of None \<Rightarrow> False | Some _ \<Rightarrow> True)"

text \<open>Reading a key that is absent gives the zero value of the value type, the empty string.\<close>

definition Get :: "Set \<Rightarrow> string \<Rightarrow> string" where
  "Get ls label = (case map_of ls label of None \<Rightarrow> [] | Some v \<Rightarrow> v)"

definition Lookup :: "Set \<Rightarrow> string \<Rightarrow> string \<times> bool" where
  "Lookup ls label = (case map_of ls label of None \<Rightarrow> ([], False) | Some v \<Rightarrow> (v, True))"

definition FormatLabels :: "Set \<Rightarrow> string" where
  "FormatLabels labelMap = (let l = String labelMap in if l = [] then ''<none>'' else l)"

subsection \<open>Conflicts, Merge, Equals\<close>

text \<open>The loop of \<^verbatim>\<open>Conflicts\<close> over \<open>small\<close>, returning at the first shared key whose values differ.\<close>

fun Conflicts_loop :: "Set \<Rightarrow> Set \<Rightarrow> bool" where
  "Conflicts_loop [] big = False"
| "Conflicts_loop ((k, v) # small) big =
     (case map_of big k of
        Some val \<Rightarrow> if val \<noteq> v then True else Conflicts_loop small big
      | None \<Rightarrow> Conflicts_loop small big)"

definition Conflicts :: "Set \<Rightarrow> Set \<Rightarrow> bool" where
  "Conflicts labels1 labels2 =
     (if length labels2 < length labels1 then Conflicts_loop labels2 labels1
      else Conflicts_loop labels1 labels2)"

text \<open>\<^verbatim>\<open>for k, v := range labels { mergedMap[k] = v }\<close>.\<close>

fun assign_all :: "Set \<Rightarrow> Set \<Rightarrow> Set" where
  "assign_all [] mergedMap = mergedMap"
| "assign_all ((k, v) # labels) mergedMap = assign_all labels (AList.update k v mergedMap)"

definition Merge :: "Set \<Rightarrow> Set \<Rightarrow> Set" where
  "Merge labels1 labels2 = assign_all labels2 (assign_all labels1 [])"

fun Equals_loop :: "Set \<Rightarrow> Set \<Rightarrow> bool" where
  "Equals_loop [] labels2 = True"
| "Equals_loop ((k, v) # labels1) labels2 =
     (case map_of labels2 k of
        None \<Rightarrow> False
      | Some val \<Rightarrow> if val \<noteq> v then False else Equals_loop labels1 labels2)"

definition Equals :: "Set \<Rightarrow> Set \<Rightarrow> bool" where
  "Equals labels1 labels2 =
     (if length labels1 \<noteq> length labels2 then False else Equals_loop labels1 labels2)"

subsection \<open>ConvertSelectorToLabelsMap\<close>

text \<open>
  \<^verbatim>\<open>validateLabelKey\<close> and \<^verbatim>\<open>validateLabelValue\<close> are not part of labels.go: they are
  the parameters \<open>vk\<close> and \<open>vv\<close>, returning \<open>None\<close> for \<^verbatim>\<open>nil\<close> and \<open>Some e\<close> for an
  error \<open>e\<close>. The field path they receive only decorates their error and is left out.
  The function returns the map together with the error, as the Go function does.
\<close>

datatype 'e error =
    InvalidSelector "string list"  \<comment> \<open>\<^verbatim>\<open>fmt.Errorf("invalid selector: %s", l)\<close>\<close>
  | Invalid 'e                     \<comment> \<open>the error of a validator, returned as it is\<close>

fun parse_labels ::
  "(string \<Rightarrow> 'e option) \<Rightarrow> (string \<Rightarrow> string \<Rightarrow> 'e option) \<Rightarrow> string list \<Rightarrow> Set
     \<Rightarrow> Set \<times> 'e error option" where
  "parse_labels vk vv [] labelsMap = (labelsMap, None)"
| "parse_labels vk vv (label # labels) labelsMap =
     (let l = Split label CHR ''='' in
      if length l \<noteq> 2 then (labelsMap, Some (InvalidSelector l))
      else
        let key = TrimSpace (l ! 0) in
        case vk key of
          Some err \<Rightarrow> (labelsMap, Some (Invalid err))
        | None \<Rightarrow>
            (let value = TrimSpace (l ! 1) in
             (case vv key value of
                Some err \<Rightarrow> (labelsMap, Some (Invalid err))
              | None \<Rightarrow> parse_labels vk vv labels (AList.update key value labelsMap))))"

definition ConvertSelectorToLabelsMap ::
  "(string \<Rightarrow> 'e option) \<Rightarrow> (string \<Rightarrow> string \<Rightarrow> 'e option) \<Rightarrow> string
     \<Rightarrow> Set \<times> 'e error option" where
  "ConvertSelectorToLabelsMap vk vv selector =
     (if length selector = 0 then ([], None)
      else parse_labels vk vv (Split selector CHR '','') [])"

section \<open>Properties\<close>

lemma map_of_update: "map_of (AList.update k v al) = (map_of al)(k \<mapsto> v)"
  by (rule update_conv')

text \<open>
  C6. Parsing the empty selector succeeds: the result is the empty label set and no error,
  whatever the validators are.
\<close>

theorem parse_empty_selector: "ConvertSelectorToLabelsMap vk vv [] = ([], None)"
  by (simp add: ConvertSelectorToLabelsMap_def)

end
